theory Spec2Isabelle
  imports Main "HOL-Library.Sublist"
begin

section \<open>Strings and numbers of the host language\<close>

text \<open>
  The service is TypeScript running on Apps Script. Strings are modelled as \<^typ>\<open>string\<close>
  (one \<^typ>\<open>char\<close> per code unit) and the integral numbers the code handles (image
  counts, millisecond timestamps, the numeric id of \<^verbatim>\<open>generateImageFileName\<close>) as
  \<^typ>\<open>int\<close>.
\<close>

definition digitChar :: "nat \<Rightarrow> char" where
  "digitChar d = ''0123456789'' ! d"

text \<open>\<^verbatim>\<open>Number.prototype.toString\<close> on an integer: the decimal digits, with a leading
  minus sign for a negative number. (The host prints an integer of magnitude below
  \<open>10^21\<close> this way; ids and timestamps are far below.)\<close>

function digitsOf :: "nat \<Rightarrow> string" where
  "digitsOf n = (if n < 10 then [digitChar n] else digitsOf (n div 10) @ [digitChar (n mod 10)])"
  by pat_completeness auto
termination
  by (relation "measure (\<lambda>n. n)") auto

declare digitsOf.simps [simp del]

definition toString :: "int \<Rightarrow> string" where
  "toString n = (if n < 0 then CHR ''-'' # digitsOf (nat (- n)) else digitsOf (nat n))"

text \<open>\<^verbatim>\<open>s.slice(0, n)\<close>: a negative end counts from the end of the string.\<close>

definition slice0 :: "string \<Rightarrow> int \<Rightarrow> string" where
  "slice0 s n =
     (if n < 0 then take (nat (max 0 (int (length s) + n))) s
      else take (nat n) s)"

text \<open>
  \<^verbatim>\<open>GetSubstitution\<close> for a string pattern (no capture groups): in the replacement text
  \<^verbatim>\<open>$$\<close> stands for a dollar sign, \<^verbatim>\<open>$&\<close> for the matched text,
  \<^verbatim>\<open>$`\<close> for the part of the subject before the match and \<^verbatim>\<open>$'\<close> for
  the part behind it; any other dollar sign is literal.
\<close>

fun getSubstitution :: "string \<Rightarrow> string \<Rightarrow> string \<Rightarrow> string \<Rightarrow> string" where
  "getSubstitution matched scanned remaining [] = []"
| "getSubstitution matched scanned remaining [c] = [c]"
| "getSubstitution matched scanned remaining (c # d # r) =
     (if c = CHR ''$'' then
        (if d = CHR ''$'' then CHR ''$'' # getSubstitution matched scanned remaining r
         else if d = CHR ''&'' then matched @ getSubstitution matched scanned remaining r
         else if d = CHR 0x60 then scanned @ getSubstitution matched scanned remaining r
         else if d = CHR 0x27 then remaining @ getSubstitution matched scanned remaining r
         else c # getSubstitution matched scanned remaining (d # r))
      else c # getSubstitution matched scanned remaining (d # r))"

text \<open>
  \<^verbatim>\<open>subject.replaceAll(search, replacement)\<close> with string arguments: the matches are
  found left to right without overlap (after a match the scan resumes behind it, and one
  position further on for an empty pattern); each is replaced by the substitution computed
  against the original subject. \<open>scanned\<close> is the part of the subject already scanned.
\<close>

function replaceAllFrom :: "string \<Rightarrow> string \<Rightarrow> string \<Rightarrow> string \<Rightarrow> string" where
  "replaceAllFrom search replacement scanned rest =
     (if prefix search rest then
        getSubstitution search scanned (drop (length search) rest) replacement @
        (if search = [] then
           (case rest of [] \<Rightarrow> []
            | c # cs \<Rightarrow> c # replaceAllFrom search replacement (scanned @ [c]) cs)
         else replaceAllFrom search replacement (scanned @ search) (drop (length search) rest))
      else
        (case rest of [] \<Rightarrow> []
         | c # cs \<Rightarrow> c # replaceAllFrom search replacement (scanned @ [c]) cs))"
  by pat_completeness auto
termination
proof (relation "measure (\<lambda>(s, r, b, rest). length rest)")
  fix search replacement :: string and scanned rest :: string
  assume "prefix search rest" and "search \<noteq> []"
  then have "rest \<noteq> []" and "0 < length search"
    by auto
  then show "((search, replacement, scanned @ search, drop (length search) rest),
              (search, replacement, scanned, rest))
             \<in> measure (\<lambda>(s, r, b, rest). length rest)"
    by simp
qed auto

declare replaceAllFrom.simps [simp del]

definition replaceAll :: "string \<Rightarrow> string \<Rightarrow> string \<Rightarrow> string" where
  "replaceAll subject search replacement = replaceAllFrom search replacement [] subject"

section \<open>File names and prompts\<close>

text \<open>
  \<^verbatim>\<open>generateImageFileName(adGroupId, adGroupName)\<close>. The id enters the result only
  through its text (\<^verbatim>\<open>adGroupId.toString()\<close> and the template literal agree), so the
  model takes that text, \<open>idText\<close>: \<^term>\<open>toString n\<close> for the number \<open>n\<close> the signature
  declares. The function reads the clock twice: \<open>now1\<close> is the reading used for the length
  budget, \<open>now2\<close> the one printed into the name.
\<close>

definition generateImageFileName :: "string \<Rightarrow> string \<Rightarrow> int \<Rightarrow> int \<Rightarrow> string" where
  "generateImageFileName idText name now1 now2 =
     (let name' = replaceAll name ''/'' '''';
          fileNameLimit = 128;
          now = toString now1;
          extraChars = 2;
          adGroupNameLimit = fileNameLimit - int (length now) - int (length idText) - extraChars;
          trimmedAdGroupName = slice0 name' adGroupNameLimit
      in idText @ ''|'' @ trimmedAdGroupName @ ''|'' @ toString now2)"

text \<open>
  \<^verbatim>\<open>createPrompt(obj)\<close>: \<open>template\<close> is \<^verbatim>\<open>CONFIG['ImgGen Prompt']\<close> and the object is
  given by its entries, in the order \<^verbatim>\<open>Object.entries\<close> yields them.
\<close>

definition placeholder :: "string \<Rightarrow> string" where
  "placeholder key = ''${'' @ key @ ''}''"

definition createPrompt :: "string \<Rightarrow> (string \<times> string) list \<Rightarrow> string" where
  "createPrompt template obj =
     foldl (\<lambda>prompt (key, value). replaceAll prompt (placeholder key) value) template obj"

section \<open>The service state and its collaborators\<close>

text \<open>
  An ad group as \<^verbatim>\<open>getAdGroups\<close> returns it: \<^verbatim>\<open>customer.id\<close>, \<^verbatim>\<open>adGroup.id\<close> and
  \<^verbatim>\<open>adGroup.name\<close>. The ids are strings: line 52 compares \<^verbatim>\<open>adGroup.id\<close> with the
  stored property by \<^verbatim>\<open>===\<close>, and a property is a string.
\<close>

record AdGroup =
  customerId :: string
  adGroupId :: string
  adGroupName :: string

text \<open>The value of \<^verbatim>\<open>CONFIG['Adios Mode']\<close>: one of the two modes, or anything else.\<close>

datatype adiosMode = AD_GROUP | KEYWORDS | OTHER_MODE

text \<open>
  The entries of \<^verbatim>\<open>CONFIG\<close> the service reads. \<open>maxExecutionTime\<close> is the watchdog's
  ceiling in milliseconds, read by \<^verbatim>\<open>Triggerable\<close>.
\<close>

record config =
  generatedDir :: string
  uploadedDir :: string
  validatedDir :: string
  numberOfImagesPerAdGroup :: int
  adiosModeOf :: adiosMode
  adGroupNameRegex :: string
  imgGenPrompt :: string
  imgGenPromptSuffix :: string
  textPromptContext :: string
  textPrompt :: string
  textPromptSuffix :: string
  maxExecutionTime :: int

text \<open>
  The calls that ask for images or store them, in the order they are made:
  \<^verbatim>\<open>callVisionApi(prompt, count)\<close> and \<^verbatim>\<open>uploadImage(blob, filename, folder)\<close>.
\<close>

datatype event = VisionCall string int | Upload string string string

fun isVisionCall :: "event \<Rightarrow> bool" where
  "isVisionCall (VisionCall p n) = True"
| "isVisionCall (Upload payload filename folder) = False"

text \<open>
  The state a run works on: the script properties, the number of pending time-based
  triggers of the service, the calls made so far, and the outside world \<open>'w\<close> (the ads
  account, the bucket, the models, the clock), which only the collaborators read and change.
  The messages written to the log are left out.
\<close>

record 'w state =
  props :: "string \<rightharpoonup> string"
  triggers :: nat
  trace :: "event list"
  world :: "'w"

text \<open>
  A compiled regular expression is represented by what it is used for:
  \<^verbatim>\<open>str.match(regex)\<close> followed by \<^verbatim>\<open>.groups\<close>, the named groups of the match in
  the order of the pattern, \<open>None\<close> when there is no match or no named group.
\<close>

type_synonym regExp = "string \<Rightarrow> (string \<times> string) list option"

text \<open>
  The collaborators (\<^verbatim>\<open>GoogleAdsApi\<close>, \<^verbatim>\<open>GcsApi\<close>, \<^verbatim>\<open>VertexAiApi\<close>, the regular
  expression engine and the clock) are parameters: each takes the world and returns its
  answer with the world after the call. \<^verbatim>\<open>callVisionApi\<close> may return nothing at all
  (\<open>None\<close>) or a list of encoded images. \<open>newRegExp pattern\<close> is
  \<^verbatim>\<open>new RegExp(pattern)\<close>: the compiled expression, or \<open>None\<close> when the pattern does
  not compile and the constructor raises a \<^verbatim>\<open>SyntaxError\<close>.
\<close>

record 'w services =
  getAdGroups :: "'w \<Rightarrow> AdGroup list \<times> 'w"
  getKeywordsForAdGroup :: "string \<Rightarrow> 'w \<Rightarrow> string list \<times> 'w"
  countImages :: "string \<Rightarrow> string \<Rightarrow> string list \<Rightarrow> 'w \<Rightarrow> int \<times> 'w"
  uploadImage :: "string \<Rightarrow> string \<Rightarrow> string \<Rightarrow> 'w \<Rightarrow> 'w"
  VISION_API_LIMIT :: int
  callGeminiApi :: "string \<Rightarrow> 'w \<Rightarrow> string \<times> 'w"
  callVisionApi :: "string \<Rightarrow> int \<Rightarrow> 'w \<Rightarrow> string list option \<times> 'w"
  newRegExp :: "string \<Rightarrow> regExp option"
  dateNow :: "'w \<Rightarrow> int \<times> 'w"

subsection \<open>Script properties\<close>

definition cursorKey :: string where
  "cursorKey = ''lastImageGenerationProcessedAdGroupId''"

definition startTimeKey :: string where
  "startTimeKey = ''ImageGenerationServiceStartTime''"

definition getProperty :: "string \<Rightarrow> 'w state \<Rightarrow> string option" where
  "getProperty key st = props st key"

definition setProperty :: "string \<Rightarrow> string \<Rightarrow> 'w state \<Rightarrow> 'w state" where
  "setProperty key v st = st\<lparr>props := (props st)(key \<mapsto> v)\<rparr>"

definition deleteProperty :: "string \<Rightarrow> 'w state \<Rightarrow> 'w state" where
  "deleteProperty key st = st\<lparr>props := (props st)(key := None)\<rparr>"

text \<open>\<^verbatim>\<open>if (value)\<close> on a property: an absent property and the empty string are falsy.\<close>

fun truthy :: "string option \<Rightarrow> bool" where
  "truthy None = False"
| "truthy (Some v) = (v \<noteq> [])"

subsection \<open>The trigger and the watchdog\<close>

text \<open>
  Modelled from the spec: \<^verbatim>\<open>Triggerable.deleteTrigger\<close> is not among the sources. The spec:
  cancel any pending self-trigger, a no-op if none exists.
\<close>

definition deleteTrigger :: "'w state \<Rightarrow> 'w state" where
  "deleteTrigger st = st\<lparr>triggers := 0\<rparr>"

text \<open>
  Modelled from the spec: \<^verbatim>\<open>Triggerable.createTriggerForNextRun\<close> is not among the
  sources. The spec: schedule a follow-up invocation.
\<close>

definition createTriggerForNextRun :: "'w state \<Rightarrow> 'w state" where
  "createTriggerForNextRun st = st\<lparr>triggers := Suc (triggers st)\<rparr>"

text \<open>Reading a decimal number back from a property.\<close>

definition parseDecimal :: "string \<Rightarrow> int" where
  "parseDecimal s = foldl (\<lambda>acc c. 10 * acc + (int (of_char c) - 48)) 0 s"

definition runStartTimestamp :: "'w state \<Rightarrow> int" where
  "runStartTimestamp st =
     (case getProperty startTimeKey st of None \<Rightarrow> 0 | Some t \<Rightarrow> parseDecimal t)"

text \<open>
  Modelled from the spec: \<^verbatim>\<open>Triggerable.shouldTerminate\<close> is not among the sources. The
  spec: the elapsed wall-clock time since the persisted start timestamp is compared against
  a fixed ceiling, and the watchdog fires when it exceeds the ceiling.
\<close>

definition shouldTerminate :: "'w services \<Rightarrow> config \<Rightarrow> 'w state \<Rightarrow> bool \<times> 'w state" where
  "shouldTerminate svc cfg st =
     (case dateNow svc (world st) of
        (currentTime, w) \<Rightarrow>
          (currentTime - runStartTimestamp st > maxExecutionTime cfg, st\<lparr>world := w\<rparr>))"

section \<open>The run\<close>

definition MAX_TRIES :: int where
  "MAX_TRIES = 3"

text \<open>\<^verbatim>\<open>array.findIndex(p)\<close>: the first position whose element satisfies \<open>p\<close>, or \<open>-1\<close>.\<close>

fun findIndexFrom :: "int \<Rightarrow> ('a \<Rightarrow> bool) \<Rightarrow> 'a list \<Rightarrow> int" where
  "findIndexFrom k p [] = - 1"
| "findIndexFrom k p (x # xs) = (if p x then k else findIndexFrom (k + 1) p xs)"

definition findIndex :: "('a \<Rightarrow> bool) \<Rightarrow> 'a list \<Rightarrow> int" where
  "findIndex p xs = findIndexFrom 0 p xs"

text \<open>Lines 49 to 55: where the loop starts, given the stored cursor.\<close>

definition startIndex :: "AdGroup list \<Rightarrow> string option \<Rightarrow> int" where
  "startIndex adGroups lastProcessed =
     (if truthy lastProcessed
      then findIndex (\<lambda>adGroup. Some (adGroupId adGroup) = lastProcessed) adGroups
      else 0)"

text \<open>\<^verbatim>\<open>[...new Set(texts)]\<close>: the distinct texts, each at its first occurrence.\<close>

fun setOrder :: "'a list \<Rightarrow> 'a list \<Rightarrow> 'a list" where
  "setOrder seen [] = seen"
| "setOrder seen (x # xs) = (if x \<in> set seen then setOrder seen xs else setOrder (seen @ [x]) xs)"

text \<open>\<^verbatim>\<open>array.join()\<close>: the elements separated by commas.\<close>

fun join :: "string list \<Rightarrow> string" where
  "join [] = []"

text \<open>\<^verbatim>\<open>getRegexMatchGroups(str, regex)\<close>, lines 243 to 249.\<close>

definition getRegexMatchGroups :: "string \<Rightarrow> regExp \<Rightarrow> (string \<times> string) list option" where
  "getRegexMatchGroups str regex = regex str"

text \<open>
  The \<^verbatim>\<open>switch\<close> on the mode (lines 107 to 151) ends in one of three ways: the
  constructor of line 109 raises, the keyword branch leaves through its \<^verbatim>\<open>continue\<close>,
  or \<open>gAdsData\<close> is set.
\<close>

datatype gAds = RegExpError | NoKeywords | GAdsData string

definition switchMode :: "'w services \<Rightarrow> config \<Rightarrow> AdGroup \<Rightarrow> 'w state \<Rightarrow> gAds \<times> 'w state" where
  "switchMode svc cfg adGroup st =
     (case adiosModeOf cfg of
        AD_GROUP \<Rightarrow>
          (case newRegExp svc (adGroupNameRegex cfg) of
             None \<Rightarrow> (RegExpError, st)
           | Some regex \<Rightarrow>
               (case getRegexMatchGroups (adGroupName adGroup) regex of
                  Some matchGroups \<Rightarrow> (GAdsData (createPrompt (imgGenPrompt cfg) matchGroups), st)
                | None \<Rightarrow> (GAdsData (imgGenPrompt cfg), st)))
      | KEYWORDS \<Rightarrow>
          (case getKeywordsForAdGroup svc (adGroupId adGroup) (world st) of
             (keywordInfo, w) \<Rightarrow>
               (let keywordList = setOrder [] keywordInfo
                in if keywordList = [] then (NoKeywords, st\<lparr>world := w\<rparr>)
                   else (GAdsData (join keywordList), st\<lparr>world := w\<rparr>)))
      | OTHER_MODE \<Rightarrow> (GAdsData [], st))"

text \<open>Lines 153 to 170: the prompt sent to the image model.\<close>

definition imagenPrompt :: "'w services \<Rightarrow> config \<Rightarrow> string \<Rightarrow> 'w state \<Rightarrow> string \<times> 'w state" where
  "imagenPrompt svc cfg gAdsData st =
     (case (if adiosModeOf cfg = AD_GROUP then (gAdsData, st)
            else (let textPrompt0 = textPromptContext cfg @ '' '' @ textPrompt cfg @ '' '' @ gAdsData;
                      textPrompt1 = (if textPromptSuffix cfg \<noteq> []
                                     then textPrompt0 @ '' '' @ textPromptSuffix cfg
                                     else textPrompt0)
                  in case callGeminiApi svc textPrompt1 (world st) of
                       (answer, w) \<Rightarrow> (answer, st\<lparr>world := w\<rparr>))) of
        (imgPrompt, st') \<Rightarrow>
          (if imgGenPromptSuffix cfg \<noteq> [] then imgPrompt @ '' '' @ imgGenPromptSuffix cfg
           else imgPrompt, st'))"

text \<open>
  One pass through the body of the \<^verbatim>\<open>while\<close> loop up to the answer of the image
  model (lines 99 to 180): the pass raises, or goes back to the head of the loop from the
  keyword branch, or the image model is asked and answers.
\<close>

datatype 'w attempt =
  Threw "'w state" | Skipped "'w state" | Answered "string list option" "'w state"

definition iteration :: "'w services \<Rightarrow> config \<Rightarrow> AdGroup \<Rightarrow> int \<Rightarrow> 'w state \<Rightarrow> 'w attempt" where
  "iteration svc cfg adGroup imgCount st =
     (case switchMode svc cfg adGroup st of
        (RegExpError, st1) \<Rightarrow> Threw st1
      | (NoKeywords, st1) \<Rightarrow> Skipped st1
      | (GAdsData gAdsData, st1) \<Rightarrow>
          (case imagenPrompt svc cfg gAdsData st1 of
             (imgPrompt, st2) \<Rightarrow>
               (case callVisionApi svc imgPrompt imgCount (world st2) of
                  (images, w) \<Rightarrow>
                    Answered images
                      (st2\<lparr>trace := trace st2 @ [VisionCall imgPrompt imgCount], world := w\<rparr>))))"

text \<open>Lines 185 to 197: every image received gets a file name and is uploaded.\<close>

fun uploadImages :: "'w services \<Rightarrow> config \<Rightarrow> AdGroup \<Rightarrow> string list \<Rightarrow> 'w state \<Rightarrow> 'w state" where
  "uploadImages svc cfg adGroup [] st = st"
| "uploadImages svc cfg adGroup (img # images) st =
     (case dateNow svc (world st) of
        (now1, w1) \<Rightarrow>
          (case dateNow svc w1 of
             (now2, w2) \<Rightarrow>
               (let filename = generateImageFileName (adGroupId adGroup) (adGroupName adGroup) now1 now2;
                    folder = customerId adGroup @ ''/'' @ adGroupId adGroup @ ''/'' @ generatedDir cfg;
                    w3 = uploadImage svc img filename folder w2
                in uploadImages svc cfg adGroup images
                     (st\<lparr>trace := trace st @ [Upload img filename folder], world := w3\<rparr>))))"

text \<open>\<^verbatim>\<open>!images || !images.length\<close>\<close>

fun noImages :: "string list option \<Rightarrow> bool" where
  "noImages None = True"
| "noImages (Some images) = (images = [])"

text \<open>
  The \<^verbatim>\<open>while\<close> loop of lines 98 to 201, with its variables \<open>generatedImages\<close> and
  \<open>numTries\<close> as arguments. It ends by its condition or by the error of line 109. Nothing
  bounds the number of passes that leave through the keyword branch's \<^verbatim>\<open>continue\<close>,
  so the loop is a partial function: \<open>None\<close> is a loop that never ends.
\<close>

datatype 'w loopEnd = Completed "'w state" | Failed "'w state"

partial_function (option) whileLoop ::
  "'w services \<Rightarrow> config \<Rightarrow> AdGroup \<Rightarrow> int \<Rightarrow> int \<Rightarrow> int \<Rightarrow> 'w state \<Rightarrow> 'w loopEnd option" where
  "whileLoop svc cfg adGroup adGroupImgCount generatedImages numTries st =
     (if generatedImages < adGroupImgCount \<and> numTries \<le> MAX_TRIES then
        (let imgCount = min (VISION_API_LIMIT svc) (adGroupImgCount - generatedImages)
         in case iteration svc cfg adGroup imgCount st of
              Threw st1 \<Rightarrow> Some (Failed st1)
            | Skipped st1 \<Rightarrow>
                whileLoop svc cfg adGroup adGroupImgCount generatedImages numTries st1
            | Answered images st3 \<Rightarrow>
                (if noImages images then
                   whileLoop svc cfg adGroup adGroupImgCount generatedImages (numTries + 1) st3
                 else
                   whileLoop svc cfg adGroup adGroupImgCount
                     (generatedImages + int (length (the images))) numTries
                     (uploadImages svc cfg adGroup (the images) st3)))
      else Some (Completed st))"


text \<open>
  One round of the \<^verbatim>\<open>for\<close> loop (lines 57 to 205) ends in one of three ways: the loop
  goes on with the next ad group, \<^verbatim>\<open>run\<close> returns, or the error of line 109 leaves
  \<^verbatim>\<open>run\<close>.
\<close>

datatype 'w round = Next "'w state" | Return "'w state" | Raise "'w state"

definition processAdGroup :: "'w services \<Rightarrow> config \<Rightarrow> AdGroup \<Rightarrow> 'w state \<Rightarrow> 'w round option" where
  "processAdGroup svc cfg adGroup st =
     (case shouldTerminate svc cfg st of
        (True, st1) \<Rightarrow>
          Some (Return (createTriggerForNextRun (setProperty cursorKey (adGroupId adGroup) st1)))
      | (False, st1) \<Rightarrow>
          (case countImages svc (customerId adGroup) (adGroupId adGroup)
                  [generatedDir cfg, uploadedDir cfg, validatedDir cfg] (world st1) of
             (existingImgCount, w) \<Rightarrow>
               (let st2 = st1\<lparr>world := w\<rparr>
                in if existingImgCount \<ge> numberOfImagesPerAdGroup cfg then Some (Next st2)
                   else
                     (let adGroupImgCount = numberOfImagesPerAdGroup cfg - existingImgCount
                      in case whileLoop svc cfg adGroup adGroupImgCount 0 0 st2 of
                           None \<Rightarrow> None
                         | Some (Failed st3) \<Rightarrow> Some (Raise st3)
                         | Some (Completed st3) \<Rightarrow>
                             Some (Next (setProperty cursorKey (adGroupId adGroup) st3))))))"

text \<open>
  How an invocation ends: it ran through the list, it stopped at the watchdog, or it raised:
  a \<^verbatim>\<open>TypeError\<close> (\<^verbatim>\<open>adGroups[i]\<close> is \<^verbatim>\<open>undefined\<close> for a negative \<open>i\<close>, and
  \<^verbatim>\<open>adGroup.adGroup\<close> is read of it) or the \<^verbatim>\<open>SyntaxError\<close> of line 109.
\<close>

datatype outcome = Finished | Rescheduled | TypeError | SyntaxError

text \<open>
  \<^verbatim>\<open>run\<close> from the head of the \<^verbatim>\<open>for\<close> loop at index \<open>i\<close> to its end (lines 56 to
  211). At a negative index the watchdog is still asked before either branch reads the
  missing ad group.
\<close>

function runFrom ::
  "'w services \<Rightarrow> config \<Rightarrow> AdGroup list \<Rightarrow> int \<Rightarrow> 'w state \<Rightarrow> (outcome \<times> 'w state) option" where
  "runFrom svc cfg adGroups i st =
     (if i < int (length adGroups) then
        (if i < 0 then Some (TypeError, snd (shouldTerminate svc cfg st))
         else
           (case processAdGroup svc cfg (adGroups ! nat i) st of
              None \<Rightarrow> None
            | Some (Return st') \<Rightarrow> Some (Rescheduled, st')
            | Some (Raise st') \<Rightarrow> Some (SyntaxError, st')
            | Some (Next st') \<Rightarrow> runFrom svc cfg adGroups (i + 1) st'))
      else Some (Finished, deleteTrigger (deleteProperty cursorKey st)))"
  by pat_completeness auto
termination
  by (relation "measure (\<lambda>(svc, cfg, adGroups, i, st). nat (int (length adGroups) - i))") auto

declare runFrom.simps [simp del]

definition run :: "'w services \<Rightarrow> config \<Rightarrow> 'w state \<Rightarrow> (outcome \<times> 'w state) option" where
  "run svc cfg st =
     (let st1 = deleteTrigger st
      in case getAdGroups svc (world st1) of
           (adGroups, w) \<Rightarrow>
             (let st2 = st1\<lparr>world := w\<rparr>;
                  lastImageGenerationProcessedAdGroupId = getProperty cursorKey st2
              in runFrom svc cfg adGroups
                   (startIndex adGroups lastImageGenerationProcessedAdGroupId) st2))"

text \<open>The first statement of both entry points: the start time is stored.\<close>

definition storeStartTime :: "'w services \<Rightarrow> 'w state \<Rightarrow> 'w state" where
  "storeStartTime svc st =
     (case dateNow svc (world st) of
        (currentTime, w) \<Rightarrow> setProperty startTimeKey (toString currentTime) (st\<lparr>world := w\<rparr>))"

definition triggeredRun :: "'w services \<Rightarrow> config \<Rightarrow> 'w state \<Rightarrow> (outcome \<times> 'w state) option" where
  "triggeredRun svc cfg st = run svc cfg (storeStartTime svc st)"

text \<open>\<^verbatim>\<open>manuallyRun\<close> up to the call of \<^verbatim>\<open>run\<close> (lines 276 to 289).\<close>

definition clearForManualRun :: "'w services \<Rightarrow> 'w state \<Rightarrow> 'w state" where
  "clearForManualRun svc st =
     (let st1 = storeStartTime svc st;
          lastImageGenerationProcessedAdGroupId = getProperty cursorKey st1
      in if truthy lastImageGenerationProcessedAdGroupId then deleteProperty cursorKey st1
         else st1)"

definition manuallyRun :: "'w services \<Rightarrow> config \<Rightarrow> 'w state \<Rightarrow> (outcome \<times> 'w state) option" where
  "manuallyRun svc cfg st = run svc cfg (clearForManualRun svc st)"

section \<open>Example inputs\<close>

text \<open>
  Two ad groups, a configuration and collaborators that always give the same answers. The
  world of the examples is the reading of the clock, which stands still.
\<close>

definition shoes :: AdGroup where
  "shoes = \<lparr>customerId = ''7'', adGroupId = ''1'', adGroupName = ''Shoes Ad''\<rparr>"

definition hats :: AdGroup where
  "hats = \<lparr>customerId = ''7'', adGroupId = ''2'', adGroupName = ''Hats Ad''\<rparr>"

definition exampleConfig :: "adiosMode \<Rightarrow> config" where
  "exampleConfig m =
     \<lparr>generatedDir = ''generated'', uploadedDir = ''uploaded'', validatedDir = ''validated'',
      numberOfImagesPerAdGroup = 2, adiosModeOf = m, adGroupNameRegex = ''^(?<city>.*) Ad$'',
      imgGenPrompt = ''A photo of a ${city}'', imgGenPromptSuffix = [],
      textPromptContext = ''You write prompts.'', textPrompt = ''Keywords:'',
      textPromptSuffix = [], maxExecutionTime = 300000\<rparr>"

text \<open>
  The regular expression engine on the one pattern of the examples, \<^verbatim>\<open>^(?<city>.*) Ad$\<close>:
  it matches a string that ends in \<^verbatim>\<open> Ad\<close> and has no line break before that, and the
  group \<^verbatim>\<open>city\<close> is what stands before. The examples compile no other pattern.
\<close>

definition exampleRegExp :: "string \<Rightarrow> regExp option" where
  "exampleRegExp pattern =
     (if pattern = ''^(?<city>.*) Ad$'' then
        Some (\<lambda>str.
          (let city = take (length str - 3) str
           in if drop (length str - 3) str = '' Ad'' \<and>
                 CHR 0x0A \<notin> set city \<and> CHR 0x0D \<notin> set city
              then Some [(''city'', city)]
              else None))
      else None)"

definition exampleServices :: "int \<Rightarrow> string list \<Rightarrow> string list option \<Rightarrow> int services" where
  "exampleServices existing keywords images =
     \<lparr>getAdGroups = (\<lambda>w. ([shoes, hats], w)),
      getKeywordsForAdGroup = (\<lambda>adGroup w. (keywords, w)),
      countImages = (\<lambda>customer adGroup dirs w. (existing, w)),
      uploadImage = (\<lambda>blob filename folder w. w),
      VISION_API_LIMIT = 4,
      callGeminiApi = (\<lambda>prompt w. (prompt, w)),
      callVisionApi = (\<lambda>prompt n w. (images, w)),
      newRegExp = exampleRegExp,
      dateNow = (\<lambda>w. (w, w))\<rparr>"

definition exampleState :: "(string \<rightharpoonup> string) \<Rightarrow> int \<Rightarrow> int state" where
  "exampleState properties clock = \<lparr>props = properties, triggers = 0, trace = [], world = clock\<rparr>"


section \<open>Properties of the building blocks\<close>

subsection \<open>Numbers, file names and prompts\<close>

lemma toString_before: "toString 9999999999999 = ''9999999999999''"
  by (simp add: toString_def digitsOf.simps digitChar_def)

lemma toString_after: "toString 10000000000000 = ''10000000000000''"
  by (simp add: toString_def digitsOf.simps digitChar_def)

text \<open>Replacing every slash by nothing removes exactly the slashes.\<close>

lemma replaceAllFrom_slash:
  "replaceAllFrom ''/'' '''' scanned rest = filter (\<lambda>c. c \<noteq> CHR ''/'') rest"
proof (induction rest arbitrary: scanned)
  case Nil
  show ?case by (simp add: replaceAllFrom.simps)
next
  case (Cons c cs)
  show ?case
    by (subst replaceAllFrom.simps) (simp add: Cons.IH)
qed

lemma replaceAll_slash: "replaceAll name ''/'' '''' = filter (\<lambda>c. c \<noteq> CHR ''/'') name"
  by (simp add: replaceAll_def replaceAllFrom_slash)

lemma generateImageFileName_eq:
  "generateImageFileName idText name now1 now2 =
     idText @ ''|'' @
     slice0 (filter (\<lambda>c. c \<noteq> CHR ''/'') name)
       (128 - int (length (toString now1)) - int (length idText) - 2) @
     ''|'' @ toString now2"
  by (simp add: generateImageFileName_def replaceAll_slash Let_def)

text \<open>
  The name stays within 128 characters when the second clock reading prints no longer than
  the first and the id leaves room for the name.
\<close>

lemma generateImageFileName_length:
  assumes "length (toString now2) \<le> length (toString now1)"
    and "length idText + length (toString now1) + 2 \<le> 128"
  shows "length (generateImageFileName idText name now1 now2) \<le> 128"
  using assms by (simp add: generateImageFileName_eq slice0_def)

lemma createPrompt_London:
  "createPrompt ''A photo of a ${city}'' [(''city'', ''London'')] = ''A photo of a London''"
  by (simp add: createPrompt_def placeholder_def replaceAll_def replaceAllFrom.simps)

lemma toString_1: "toString 1 = ''1''"
  by (simp add: toString_def digitsOf.simps digitChar_def)

text \<open>The number of digits: below \<open>10^k\<close> at most \<open>k\<close>, from \<open>10^k\<close> on more than \<open>k\<close>.\<close>

lemma digitsOf_length_le: "0 < k \<Longrightarrow> n < 10 ^ k \<Longrightarrow> length (digitsOf n) \<le> k"
proof (induction n arbitrary: k rule: digitsOf.induct)
  case (1 n)
  show ?case
  proof (cases "n < 10")
    case True
    with 1(2) show ?thesis by (subst digitsOf.simps) simp
  next
    case False
    obtain j where k: "k = Suc j"
      using 1(2) by (cases k) simp_all
    from False 1(3) k have j: "0 < j"
      by (cases j) simp_all
    from 1(3) k have "n div 10 < 10 ^ j"
      by (simp add: less_mult_imp_div_less mult.commute)
    from 1(1) [OF False j this] False k show ?thesis
      by (subst digitsOf.simps) simp
  qed
qed

lemma digitsOf_length_gt: "10 ^ k \<le> n \<Longrightarrow> k < length (digitsOf n)"
proof (induction n arbitrary: k rule: digitsOf.induct)
  case (1 n)
  show ?case
  proof (cases "n < 10")
    case True
    have "k = 0"
    proof (rule ccontr)
      assume "k \<noteq> 0"
      then obtain j where "k = Suc j"
        by (cases k) simp_all
      moreover have "(1::nat) \<le> 10 ^ j"
        by simp
      ultimately have "(10::nat) \<le> 10 ^ k"
        by simp
      with 1(2) True show False
        by simp
    qed
    with True show ?thesis by (subst digitsOf.simps) simp
  next
    case False
    show ?thesis
    proof (cases k)
      case 0
      with False show ?thesis by (subst digitsOf.simps) simp
    next
      case (Suc j)
      with 1(2) have "10 ^ j \<le> n div 10"
        by (simp add: less_eq_div_iff_mult_less_eq mult.commute)
      from 1(1) [OF False this] False Suc show ?thesis
        by (subst digitsOf.simps) simp
    qed
  qed
qed

lemma toString_13_digits:
  assumes "10 ^ 12 \<le> t" and "t < 10 ^ 13"
  shows "length (toString t) = 13"
proof -
  have "(10::nat) ^ 12 \<le> nat t" and "nat t < 10 ^ 13"
    using assms by (simp_all add: le_nat_iff nat_less_iff)
  then have "12 < length (digitsOf (nat t))" and "length (digitsOf (nat t)) \<le> 13"
    by (simp_all add: digitsOf_length_gt digitsOf_length_le)
  moreover have "0 \<le> t"
    using assms(1) by (rule order_trans [rotated]) simp
  ultimately show ?thesis
    by (simp add: toString_def)
qed

lemma toString_example_clock: "toString 1700000000001 = ''1700000000001''"
  by (simp add: toString_def digitsOf.simps digitChar_def)

text \<open>
  The two clock readings can differ in length only when the clock gains a digit between
  them; the name is then cut for the shorter reading.
\<close>

lemma file_name_clock_rollover:
  "length (generateImageFileName (toString 1) (replicate 200 CHR ''a'')
             9999999999999 10000000000000) = 129"
  by (simp add: generateImageFileName_eq toString_1 toString_before toString_after slice0_def)

subsection \<open>The loops\<close>



lemma uploadImages_keeps:
  "props (uploadImages svc cfg adGroup images st) = props st \<and>
   triggers (uploadImages svc cfg adGroup images st) = triggers st \<and>
   filter isVisionCall (trace (uploadImages svc cfg adGroup images st)) =
     filter isVisionCall (trace st)"
  by (induction images arbitrary: st) (auto simp: Let_def split: prod.splits)


lemma setOrder_Nil: "(setOrder seen xs = []) = (seen = [] \<and> xs = [])"
proof (induction xs arbitrary: seen)
  case Nil
  show ?case by simp
next
  case (Cons x xs)
  show ?case by (cases "seen = []") (simp_all add: Cons.IH)
qed

lemma iteration_no_keywords:
  assumes "adiosModeOf cfg = KEYWORDS"
    and "fst (getKeywordsForAdGroup svc (adGroupId adGroup) (world st)) = []"
  shows "iteration svc cfg adGroup imgCount st =
           Skipped (st\<lparr>world := snd (getKeywordsForAdGroup svc (adGroupId adGroup) (world st))\<rparr>)"
  using assms
  by (cases "getKeywordsForAdGroup svc (adGroupId adGroup) (world st)")
     (simp add: iteration_def switchMode_def Let_def setOrder_Nil)

text \<open>
  In keyword mode, an ad group whose keyword list is empty whenever it is asked for keeps
  the loop turning: no call of the loop with its condition true returns.
\<close>

lemma whileLoop_no_keywords:
  assumes mode: "adiosModeOf cfg = KEYWORDS"
    and empty: "\<And>w. fst (getKeywordsForAdGroup svc (adGroupId adGroup) w) = []"
    and more: "g < n" "t \<le> MAX_TRIES"
  shows "whileLoop svc cfg adGroup n g t st = None"
proof (rule ccontr)
  assume "whileLoop svc cfg adGroup n g t st \<noteq> None"
  then obtain r where ret: "whileLoop svc cfg adGroup n g t st = Some r"
    by auto
  have "\<not> (adiosModeOf cfg = KEYWORDS \<and>
            (\<forall>w. fst (getKeywordsForAdGroup svc (adGroupId adGroup) w) = []) \<and>
            g < n \<and> t \<le> MAX_TRIES)"
  proof (rule whileLoop.raw_induct
      [where P = "\<lambda>svc cfg adGroup n g t st r.
         \<not> (adiosModeOf cfg = KEYWORDS \<and>
            (\<forall>w. fst (getKeywordsForAdGroup svc (adGroupId adGroup) w) = []) \<and>
            g < n \<and> t \<le> MAX_TRIES)", OF _ ret], goal_cases)
    case (1 loop svc cfg adGroup n g t st r)
    show ?case
    proof
      assume c: "adiosModeOf cfg = KEYWORDS \<and>
            (\<forall>w. fst (getKeywordsForAdGroup svc (adGroupId adGroup) w) = []) \<and>
            g < n \<and> t \<le> MAX_TRIES"
      then have "iteration svc cfg adGroup (min (VISION_API_LIMIT svc) (n - g)) st =
           Skipped (st\<lparr>world := snd (getKeywordsForAdGroup svc (adGroupId adGroup) (world st))\<rparr>)"
        by (simp add: iteration_no_keywords)
      with 1(2) c have "loop svc cfg adGroup n g t
          (st\<lparr>world := snd (getKeywordsForAdGroup svc (adGroupId adGroup) (world st))\<rparr>) = Some r"
        by (simp add: Let_def)
      from 1(1) [OF this] c show False by blast
    qed
  qed
  with mode empty more show False by blast
qed


lemma findIndexFrom_notin:
  "(\<forall>x \<in> set xs. \<not> p x) \<Longrightarrow> findIndexFrom k p xs = - 1"
  by (induction xs arbitrary: k) auto

lemma findIndexFrom_in:
  "\<exists>x \<in> set xs. p x \<Longrightarrow>
     k \<le> findIndexFrom k p xs \<and> findIndexFrom k p xs < k + int (length xs) \<and>
     p (xs ! nat (findIndexFrom k p xs - k)) \<and>
     (\<forall>j < nat (findIndexFrom k p xs - k). \<not> p (xs ! j))"
proof (induction xs arbitrary: k)
  case Nil
  then show ?case by simp
next
  case (Cons x xs)
  show ?case
  proof (cases "p x")
    case True
    then show ?thesis by simp
  next
    case False
    with Cons.prems have "\<exists>x \<in> set xs. p x" by simp
    from Cons.IH [OF this, of "k + 1"] have ih:
      "k + 1 \<le> findIndexFrom (k + 1) p xs"
      "findIndexFrom (k + 1) p xs < k + 1 + int (length xs)"
      "p (xs ! nat (findIndexFrom (k + 1) p xs - (k + 1)))"
      "\<forall>j < nat (findIndexFrom (k + 1) p xs - (k + 1)). \<not> p (xs ! j)"
      by simp_all
    define r where "r = findIndexFrom (k + 1) p xs"
    have nat_eq: "nat (r - k) = Suc (nat (r - (k + 1)))"
      using ih(1) by (simp add: r_def)
    have "\<forall>j < nat (r - k). \<not> p ((x # xs) ! j)"
    proof (intro allI impI)
      fix j assume "j < nat (r - k)"
      then show "\<not> p ((x # xs) ! j)"
        using False ih(4) nat_eq by (cases j) (simp_all add: r_def)
    qed
    with False ih nat_eq show ?thesis
      by (simp add: r_def [symmetric])
  qed
qed

lemma runFrom_negative:
  "i < 0 \<Longrightarrow> runFrom svc cfg adGroups i st = Some (TypeError, snd (shouldTerminate svc cfg st))"
  by (subst runFrom.simps) simp

text \<open>At an index of the list, the loop is the round of that ad group and then the rest.\<close>

lemma runFrom_round:
  assumes "0 \<le> i" and "i < int (length adGroups)"
  shows "runFrom svc cfg adGroups i st =
           (case processAdGroup svc cfg (adGroups ! nat i) st of
              None \<Rightarrow> None
            | Some (Return st') \<Rightarrow> Some (Rescheduled, st')
            | Some (Raise st') \<Rightarrow> Some (SyntaxError, st')
            | Some (Next st') \<Rightarrow> runFrom svc cfg adGroups (i + 1) st')"
  using assms by (subst runFrom.simps) simp

lemma runFrom_end:
  "int (length adGroups) \<le> i \<Longrightarrow>
     runFrom svc cfg adGroups i st = Some (Finished, deleteTrigger (deleteProperty cursorKey st))"
  by (subst runFrom.simps) simp

lemma runFrom_Finished:
  "runFrom svc cfg adGroups i st = Some (Finished, st') \<Longrightarrow>
     props st' cursorKey = None \<and> triggers st' = 0"
proof (induction svc cfg adGroups i st rule: runFrom.induct)
  case (1 svc cfg adGroups i st)
  show ?case
  proof (cases "i < int (length adGroups)")
    case False
    with 1(2) show ?thesis
      by (auto simp: runFrom_end deleteTrigger_def deleteProperty_def)
  next
    case True
    show ?thesis
    proof (cases "i < 0")
      case neg: True
      with 1(2) show ?thesis by (simp add: runFrom_negative)
    next
      case nonneg: False
      from 1(2) True nonneg obtain st1 where
        p: "processAdGroup svc cfg (adGroups ! nat i) st = Some (Next st1)"
        and r: "runFrom svc cfg adGroups (i + 1) st1 = Some (Finished, st')"
        by (auto simp: runFrom_round split: option.splits round.splits)
      from 1(1) [OF True nonneg p refl r] show ?thesis .
    qed
  qed
qed

lemma run_eq:
  assumes "getAdGroups svc (world st) = (adGroups, w)"
  shows "run svc cfg st =
           runFrom svc cfg adGroups (startIndex adGroups (props st cursorKey))
             (st\<lparr>triggers := 0, world := w\<rparr>)"
  using assms by (simp add: run_def deleteTrigger_def getProperty_def)

lemma keys_differ: "cursorKey \<noteq> startTimeKey"
  by (simp add: cursorKey_def startTimeKey_def)

text \<open>
  In ad group mode a pattern that does not compile ends the round at the first pass of the
  loop: the image model is not asked and the cursor is not written.
\<close>

lemma invalid_pattern_raises:
  assumes "adiosModeOf cfg = AD_GROUP" and "newRegExp svc (adGroupNameRegex cfg) = None"
    and "shouldTerminate svc cfg st = (False, st1)"
    and "countImages svc (customerId adGroup) (adGroupId adGroup)
           [generatedDir cfg, uploadedDir cfg, validatedDir cfg] (world st1) = (existingImgCount, w)"
    and "existingImgCount < numberOfImagesPerAdGroup cfg"
  shows "processAdGroup svc cfg adGroup st = Some (Raise (st1\<lparr>world := w\<rparr>))"
proof -
  have "iteration svc cfg adGroup imgCount (st1\<lparr>world := w\<rparr>) = Threw (st1\<lparr>world := w\<rparr>)"
    for imgCount
    using assms(1,2) by (simp add: iteration_def switchMode_def)
  then have "whileLoop svc cfg adGroup (numberOfImagesPerAdGroup cfg - existingImgCount) 0 0
          (st1\<lparr>world := w\<rparr>) = Some (Failed (st1\<lparr>world := w\<rparr>))"
    using assms(5) by (subst whileLoop.simps) (simp add: MAX_TRIES_def Let_def)
  with assms(3,4,5) show ?thesis
    by (simp add: processAdGroup_def Let_def)
qed

subsection \<open>The example inputs\<close>

lemmas example_defs =
  exampleServices_def exampleConfig_def exampleState_def shoes_def hats_def

lemmas store_defs =
  getProperty_def setProperty_def deleteProperty_def deleteTrigger_def
  createTriggerForNextRun_def runStartTimestamp_def shouldTerminate_def

lemma processAdGroup_no_keywords:
  assumes "adiosModeOf cfg = KEYWORDS"
    and "\<And>w. fst (getKeywordsForAdGroup svc (adGroupId adGroup) w) = []"
    and "fst (shouldTerminate svc cfg st) = False"
    and "fst (countImages svc (customerId adGroup) (adGroupId adGroup)
           [generatedDir cfg, uploadedDir cfg, validatedDir cfg]
           (world (snd (shouldTerminate svc cfg st)))) < numberOfImagesPerAdGroup cfg"
  shows "processAdGroup svc cfg adGroup st = None"
proof -
  obtain st1 where sh: "shouldTerminate svc cfg st = (False, st1)"
    using assms(3) by (cases "shouldTerminate svc cfg st") simp
  obtain existingImgCount w where cnt:
    "countImages svc (customerId adGroup) (adGroupId adGroup)
       [generatedDir cfg, uploadedDir cfg, validatedDir cfg] (world st1) = (existingImgCount, w)"
    by (cases "countImages svc (customerId adGroup) (adGroupId adGroup)
       [generatedDir cfg, uploadedDir cfg, validatedDir cfg] (world st1)")
  from assms(4) sh cnt have less: "existingImgCount < numberOfImagesPerAdGroup cfg"
    by simp
  have "whileLoop svc cfg adGroup (numberOfImagesPerAdGroup cfg - existingImgCount) 0 0
          (st1\<lparr>world := w\<rparr>) = None"
    using assms(1,2) less by (intro whileLoop_no_keywords) (simp_all add: MAX_TRIES_def)
  with sh cnt less show ?thesis
    by (simp add: processAdGroup_def Let_def)
qed

lemma example_round_enough:
  "processAdGroup (exampleServices 2 [] None) (exampleConfig AD_GROUP) adGroup
     (exampleState [cursorKey \<mapsto> c] 0) = Some (Next (exampleState [cursorKey \<mapsto> c] 0))"
  using keys_differ
  by (simp add: exampleServices_def exampleConfig_def exampleState_def store_defs
      processAdGroup_def)

lemma example_run_finishes:
  "run (exampleServices 2 [] None) (exampleConfig AD_GROUP)
     (exampleState [cursorKey \<mapsto> ''2''] 0) = Some (Finished, exampleState Map.empty 0)"
proof -
  have "runFrom (exampleServices 2 [] None) (exampleConfig AD_GROUP) [shoes, hats] 2
          (exampleState [cursorKey \<mapsto> ''2''] 0) = Some (Finished, exampleState Map.empty 0)"
    by (subst runFrom.simps) (simp add: exampleState_def deleteTrigger_def deleteProperty_def)
  then have "runFrom (exampleServices 2 [] None) (exampleConfig AD_GROUP) [shoes, hats] 1
          (exampleState [cursorKey \<mapsto> ''2''] 0) = Some (Finished, exampleState Map.empty 0)"
    by (subst runFrom.simps) (simp add: example_round_enough)
  moreover have "getAdGroups (exampleServices 2 [] None)
       (world (exampleState [cursorKey \<mapsto> ''2''] 0)) = ([shoes, hats], 0)"
    by (simp add: example_defs)
  moreover have "startIndex [shoes, hats] (Some ''2'') = 1"
    by (simp add: startIndex_def findIndex_def shoes_def hats_def)
  ultimately show ?thesis
    by (simp add: run_eq exampleState_def)
qed


section \<open>The claims\<close>

text \<open>
  \<^bold>\<open>C1\<close>, as the code has it. For an ad group whose image count in the three folders is
  at least the configured number, the round makes no call of the image model and no upload,
  and the loop goes on with the next ad group. The round leaves through the
  \<^verbatim>\<open>continue\<close> of line 88, before the cursor is written in lines 202 to 205: the
  properties, the cursor among them, are what they were.
\<close>

theorem enough_images_skips_item:
  assumes "shouldTerminate svc cfg st = (False, st1)"
    and "countImages svc (customerId adGroup) (adGroupId adGroup)
           [generatedDir cfg, uploadedDir cfg, validatedDir cfg] (world st1) = (existingImgCount, w)"
    and "existingImgCount \<ge> numberOfImagesPerAdGroup cfg"
  shows "processAdGroup svc cfg adGroup st = Some (Next (st1\<lparr>world := w\<rparr>)) \<and>
         trace (st1\<lparr>world := w\<rparr>) = trace st \<and>
         props (st1\<lparr>world := w\<rparr>) = props st \<and>
         triggers (st1\<lparr>world := w\<rparr>) = triggers st"
proof -
  from assms(1) have "st1 = st\<lparr>world := snd (dateNow svc (world st))\<rparr>"
    by (auto simp: shouldTerminate_def split: prod.splits)
  then have "trace st1 = trace st" "props st1 = props st" "triggers st1 = triggers st"
    by simp_all
  with assms show ?thesis
    by (simp add: processAdGroup_def)
qed

theorem enough_images_skips_item_witness:
  "processAdGroup (exampleServices 2 [] None) (exampleConfig AD_GROUP) shoes
     (exampleState Map.empty 0) = Some (Next (exampleState Map.empty 0))"
  using enough_images_skips_item [of "exampleServices 2 [] None" "exampleConfig AD_GROUP"
      "exampleState Map.empty 0" "exampleState Map.empty 0" shoes 2 0]
  by (simp add: example_defs store_defs)

text \<open>
  \<^bold>\<open>C1\<close>, as stated, fails: \<open>shoes\<close> has two images of two, the round ends, and the
  cursor is not its id.
\<close>

theorem enough_images_cursor_counterexample:
  "numberOfImagesPerAdGroup (exampleConfig AD_GROUP)
     \<le> fst (countImages (exampleServices 2 [] None) (customerId shoes) (adGroupId shoes)
              [''generated'', ''uploaded'', ''validated''] 0) \<and>
   processAdGroup (exampleServices 2 [] None) (exampleConfig AD_GROUP) shoes
     (exampleState Map.empty 0) = Some (Next (exampleState Map.empty 0)) \<and>
   getProperty cursorKey (exampleState Map.empty 0) \<noteq> Some (adGroupId shoes)"
  by (simp add: example_defs store_defs processAdGroup_def)

text \<open>
  \<^bold>\<open>C2\<close>. A stored cursor that no ad group of the list carries: \<^verbatim>\<open>findIndex\<close> gives
  \<open>-1\<close>, the loop starts there, and reading the missing ad group raises a
  \<^verbatim>\<open>TypeError\<close>. No ad group is processed and the cursor stays.
\<close>

theorem missing_cursor_raises:
  "run (exampleServices 0 [] None) (exampleConfig AD_GROUP)
     (exampleState [cursorKey \<mapsto> ''9''] 0) =
   Some (TypeError, exampleState [cursorKey \<mapsto> ''9''] 0)"
  by (simp add: run_def startIndex_def findIndex_def runFrom_negative example_defs store_defs)

text \<open>
  \<^bold>\<open>C3\<close>. In keyword mode with an ad group that has no keywords and lacks images, the
  \<^verbatim>\<open>continue\<close> of line 143 goes back to the head of the \<^verbatim>\<open>while\<close> loop with
  \<open>generatedImages\<close> and \<open>numTries\<close> unchanged: the run never returns.
\<close>

theorem no_keywords_never_returns:
  "run (exampleServices 0 [] None) (exampleConfig KEYWORDS) (exampleState Map.empty 0) = None"
proof -
  have "processAdGroup (exampleServices 0 [] None) (exampleConfig KEYWORDS) shoes
          (exampleState Map.empty 0) = None"
    by (rule processAdGroup_no_keywords) (simp_all add: example_defs store_defs)
  then have "runFrom (exampleServices 0 [] None) (exampleConfig KEYWORDS) [shoes, hats] 0
          (exampleState Map.empty 0) = None"
    by (subst runFrom.simps) simp
  then show ?thesis
    by (simp add: run_def startIndex_def example_defs store_defs)
qed



text \<open>
  \<^bold>\<open>C5\<close>. At any position of the list, when the clock read at the head of the round is
  more than the ceiling past the stored start time, the run ends there: the ad group's id is
  the cursor, one more trigger is pending, and nothing else has changed (no image counted,
  asked for or uploaded at this position or a later one).
\<close>

theorem watchdog_stops_run:
  assumes "0 \<le> i" and "i < int (length adGroups)"
    and "dateNow svc (world st) = (currentTime, w)"
    and "currentTime - runStartTimestamp st > maxExecutionTime cfg"
  shows "runFrom svc cfg adGroups i st =
           Some (Rescheduled,
                 st\<lparr>props := (props st)(cursorKey \<mapsto> adGroupId (adGroups ! nat i)),
                    triggers := Suc (triggers st), world := w\<rparr>)"
  using assms
  by (subst runFrom.simps)
     (simp add: processAdGroup_def shouldTerminate_def setProperty_def createTriggerForNextRun_def)

theorem watchdog_stops_run_witness:
  "runFrom (exampleServices 0 [] None) (exampleConfig AD_GROUP) [shoes, hats] 1
     (exampleState [startTimeKey \<mapsto> ''1000''] 400000) =
   Some (Rescheduled,
         \<lparr>props = [startTimeKey \<mapsto> ''1000'', cursorKey \<mapsto> ''2''], triggers = 1, trace = [],
          world = 400000\<rparr>)"
  using watchdog_stops_run [of 1 "[shoes, hats]" "exampleServices 0 [] None"
      "exampleState [startTimeKey \<mapsto> ''1000''] 400000" 400000 400000 "exampleConfig AD_GROUP"]
  by (simp add: example_defs getProperty_def runStartTimestamp_def parseDecimal_def)

text \<open>
  \<^bold>\<open>C6\<close>. A cursor counts as stored when the property passes the test of line 50,
  \<^verbatim>\<open>if (lastImageGenerationProcessedAdGroupId)\<close>, that is when it is present and not the
  empty string. Without one, \<^verbatim>\<open>run\<close> starts with the round of the first ad group of the
  list. With one that some ad group of the list carries, \<^verbatim>\<open>run\<close> starts with the round
  of the first ad group with that id, which is processed again, and goes on with the ad
  groups behind it.
\<close>

theorem start_index:
  assumes "getAdGroups svc (world st) = (adGroups, w)"
  shows "run svc cfg st =
           runFrom svc cfg adGroups (startIndex adGroups (getProperty cursorKey st))
             (st\<lparr>triggers := 0, world := w\<rparr>) \<and>
         (\<not> truthy (getProperty cursorKey st) \<longrightarrow>
            startIndex adGroups (getProperty cursorKey st) = 0 \<and>
            (adGroups \<noteq> [] \<longrightarrow>
               run svc cfg st =
                 (case processAdGroup svc cfg (adGroups ! 0) (st\<lparr>triggers := 0, world := w\<rparr>) of
                    None \<Rightarrow> None
                  | Some (Return st') \<Rightarrow> Some (Rescheduled, st')
                  | Some (Raise st') \<Rightarrow> Some (SyntaxError, st')
                  | Some (Next st') \<Rightarrow> runFrom svc cfg adGroups 1 st'))) \<and>
         (\<forall>c. truthy (getProperty cursorKey st) \<and> getProperty cursorKey st = Some c \<and>
              c \<in> adGroupId ` set adGroups \<longrightarrow>
              0 \<le> startIndex adGroups (Some c) \<and>
              startIndex adGroups (Some c) < int (length adGroups) \<and>
              adGroupId (adGroups ! nat (startIndex adGroups (Some c))) = c \<and>
              (\<forall>j < nat (startIndex adGroups (Some c)). adGroupId (adGroups ! j) \<noteq> c) \<and>
              run svc cfg st =
                (case processAdGroup svc cfg (adGroups ! nat (startIndex adGroups (Some c)))
                        (st\<lparr>triggers := 0, world := w\<rparr>) of
                   None \<Rightarrow> None
                 | Some (Return st') \<Rightarrow> Some (Rescheduled, st')
                 | Some (Raise st') \<Rightarrow> Some (SyntaxError, st')
                 | Some (Next st') \<Rightarrow>
                     runFrom svc cfg adGroups (startIndex adGroups (Some c) + 1) st'))"
proof -
  define st2 where "st2 = st\<lparr>triggers := 0, world := w\<rparr>"
  have a: "run svc cfg st =
           runFrom svc cfg adGroups (startIndex adGroups (getProperty cursorKey st)) st2"
    using run_eq [OF assms] by (simp add: getProperty_def st2_def)
  have b: "startIndex adGroups v = 0" if "\<not> truthy v" for v
    using that by (simp add: startIndex_def)
  have b': "run svc cfg st =
                 (case processAdGroup svc cfg (adGroups ! 0) st2 of
                    None \<Rightarrow> None
                  | Some (Return st') \<Rightarrow> Some (Rescheduled, st')
                  | Some (Raise st') \<Rightarrow> Some (SyntaxError, st')
                  | Some (Next st') \<Rightarrow> runFrom svc cfg adGroups 1 st')"
    if "\<not> truthy (getProperty cursorKey st)" and "adGroups \<noteq> []"
    using that a runFrom_round [of 0 adGroups svc cfg st2]
    by (simp add: b cong: option.case_cong round.case_cong)
  have c: "0 \<le> startIndex adGroups (Some c) \<and>
           startIndex adGroups (Some c) < int (length adGroups) \<and>
           adGroupId (adGroups ! nat (startIndex adGroups (Some c))) = c \<and>
           (\<forall>j < nat (startIndex adGroups (Some c)). adGroupId (adGroups ! j) \<noteq> c)"
    if "c \<noteq> []" and "c \<in> adGroupId ` set adGroups" for c
  proof -
    from that(2) have "\<exists>x \<in> set adGroups. Some (adGroupId x) = Some c"
      by auto
    from findIndexFrom_in [OF this, of 0] that(1) show ?thesis
      by (simp add: startIndex_def findIndex_def)
  qed
  have c': "run svc cfg st =
                (case processAdGroup svc cfg (adGroups ! nat (startIndex adGroups (Some c))) st2 of
                   None \<Rightarrow> None
                 | Some (Return st') \<Rightarrow> Some (Rescheduled, st')
                 | Some (Raise st') \<Rightarrow> Some (SyntaxError, st')
                 | Some (Next st') \<Rightarrow>
                     runFrom svc cfg adGroups (startIndex adGroups (Some c) + 1) st')"
    if "getProperty cursorKey st = Some c" and "c \<noteq> []" and "c \<in> adGroupId ` set adGroups" for c
    using a that(1) c [OF that(2,3)]
      runFrom_round [of "startIndex adGroups (Some c)" adGroups svc cfg st2]
    by simp
  from a b b' c c' show ?thesis
    unfolding st2_def by auto
qed

theorem start_index_witness:
  "startIndex [shoes, hats] (Some ''2'') = 1 \<and>
   adGroupId ([shoes, hats] ! nat (startIndex [shoes, hats] (Some ''2''))) = ''2'' \<and>
   run (exampleServices 2 [] None) (exampleConfig AD_GROUP) (exampleState [cursorKey \<mapsto> ''2''] 0) =
     (case processAdGroup (exampleServices 2 [] None) (exampleConfig AD_GROUP) hats
             (exampleState [cursorKey \<mapsto> ''2''] 0) of
        None \<Rightarrow> None
      | Some (Return st') \<Rightarrow> Some (Rescheduled, st')
      | Some (Raise st') \<Rightarrow> Some (SyntaxError, st')
      | Some (Next st') \<Rightarrow>
          runFrom (exampleServices 2 [] None) (exampleConfig AD_GROUP) [shoes, hats] 2 st')"
proof -
  have g: "getAdGroups (exampleServices 2 [] None)
       (world (exampleState [cursorKey \<mapsto> ''2''] 0)) = ([shoes, hats], 0)"
    by (simp add: example_defs)
  have i: "startIndex [shoes, hats] (Some ''2'') = 1"
    by (simp add: startIndex_def findIndex_def shoes_def hats_def)
  have s: "(exampleState [cursorKey \<mapsto> ''2''] 0)\<lparr>triggers := 0, world := 0\<rparr> =
        exampleState [cursorKey \<mapsto> ''2''] 0"
    by (simp add: exampleState_def)
  have t: "truthy (getProperty cursorKey (exampleState [cursorKey \<mapsto> ''2''] 0)) \<and>
        getProperty cursorKey (exampleState [cursorKey \<mapsto> ''2''] 0) = Some ''2'' \<and>
        ''2'' \<in> adGroupId ` set [shoes, hats]"
    by (simp add: getProperty_def exampleState_def shoes_def hats_def)
  from start_index [OF g, of "exampleConfig AD_GROUP", THEN conjunct2, THEN conjunct2,
      THEN spec, THEN mp, OF t]
  show ?thesis
    unfolding s i by (simp add: hats_def cong: option.case_cong round.case_cong)
qed

text \<open>
  \<^bold>\<open>C7\<close>. A run that gets past the last ad group ends with the cursor property deleted
  and no trigger pending.
\<close>

theorem finished_run_clears_cursor:
  assumes "run svc cfg st = Some (Finished, st')"
  shows "getProperty cursorKey st' = None \<and> triggers st' = 0"
proof -
  obtain adGroups w where "getAdGroups svc (world st) = (adGroups, w)"
    by (cases "getAdGroups svc (world st)")
  from run_eq [OF this] assms
  have "runFrom svc cfg adGroups (startIndex adGroups (props st cursorKey))
          (st\<lparr>triggers := 0, world := w\<rparr>) = Some (Finished, st')"
    by simp
  from runFrom_Finished [OF this] show ?thesis
    by (simp add: getProperty_def)
qed

theorem finished_run_clears_cursor_witness:
  "run (exampleServices 2 [] None) (exampleConfig AD_GROUP)
     (exampleState [cursorKey \<mapsto> ''2''] 0) = Some (Finished, exampleState Map.empty 0) \<and>
   getProperty cursorKey (exampleState Map.empty 0) = None \<and>
   triggers (exampleState Map.empty 0 :: int state) = 0"
  using finished_run_clears_cursor [OF example_run_finishes] example_run_finishes
  by simp

text \<open>
  \<^bold>\<open>C8\<close>. While the clock prints 13 digits (from September 2001 to November 2286) and
  the id prints in at most 113 characters (a number prints in far fewer), the file name is
  the id, a bar, the first characters of the name with its slashes removed, a bar and the
  second clock reading; the name part has no slash and the whole has at most 128
  characters.
\<close>

theorem file_name_within_limit:
  assumes "10 ^ 12 \<le> now1" and "now1 < 10 ^ 13" and "10 ^ 12 \<le> now2" and "now2 < 10 ^ 13"
    and "length idText \<le> 113"
  shows "generateImageFileName idText name now1 now2 =
           idText @ ''|'' @ take (113 - length idText) (filter (\<lambda>c. c \<noteq> CHR ''/'') name) @
           ''|'' @ toString now2 \<and>
         CHR ''/'' \<notin> set (take (113 - length idText) (filter (\<lambda>c. c \<noteq> CHR ''/'') name)) \<and>
         length (generateImageFileName idText name now1 now2) \<le> 128"
proof -
  have l1: "length (toString now1) = 13" and l2: "length (toString now2) = 13"
    using assms by (simp_all add: toString_13_digits)
  have limit: "128 - int (length (toString now1)) - int (length idText) - 2 =
        int (113 - length idText)"
    using assms(5) l1 by simp
  have eq: "generateImageFileName idText name now1 now2 =
           idText @ ''|'' @ take (113 - length idText) (filter (\<lambda>c. c \<noteq> CHR ''/'') name) @
           ''|'' @ toString now2"
    unfolding generateImageFileName_eq limit by (simp add: slice0_def)
  have "set (take (113 - length idText) (filter (\<lambda>c. c \<noteq> CHR ''/'') name))
          \<subseteq> set (filter (\<lambda>c. c \<noteq> CHR ''/'') name)"
    by (rule set_take_subset)
  then have noslash:
    "CHR ''/'' \<notin> set (take (113 - length idText) (filter (\<lambda>c. c \<noteq> CHR ''/'') name))"
    by auto
  have "length (generateImageFileName idText name now1 now2) \<le> 128"
    unfolding eq using assms(5) l2 by simp
  with eq noslash show ?thesis
    by simp
qed

theorem file_name_within_limit_witness:
  "generateImageFileName (toString 1) (replicate 100 CHR ''a'' @ ''/'' @ replicate 100 CHR ''b'')
     1700000000000 1700000000001 =
     ''1|'' @ replicate 100 CHR ''a'' @ replicate 12 CHR ''b'' @ ''|1700000000001'' \<and>
   length (generateImageFileName (toString 1)
     (replicate 100 CHR ''a'' @ ''/'' @ replicate 100 CHR ''b'') 1700000000000 1700000000001) = 128"
  using file_name_within_limit [of 1700000000000 1700000000001 "toString 1"
      "replicate 100 CHR ''a'' @ ''/'' @ replicate 100 CHR ''b''"]
  by (simp add: toString_1 toString_example_clock)

text \<open>
  \<^bold>\<open>C9\<close>. The value \<^verbatim>\<open>$$\<close> is not what replaces the placeholder: in a replacement
  text \<^verbatim>\<open>$$\<close> stands for one dollar sign.
\<close>

theorem createPrompt_dollar_value:
  "createPrompt ''A photo of a ${city}'' [(''city'', ''$$'')] = ''A photo of a $''"
  by (simp add: createPrompt_def placeholder_def replaceAll_def replaceAllFrom.simps)

text \<open>
  \<^bold>\<open>C10\<close>. Before \<^verbatim>\<open>manuallyRun\<close> calls \<^verbatim>\<open>run\<close>, the start time is the clock reading
  just taken and no cursor is stored (a cursor that was stored is deleted); whatever the
  properties were, the run that follows starts with the round of the first ad group of the
  list.
\<close>

theorem manual_run_starts_at_zero:
  assumes "dateNow svc (world st) = (currentTime, w1)"
    and "getAdGroups svc w1 = (adGroups, w2)"
  shows "manuallyRun svc cfg st = run svc cfg (clearForManualRun svc st) \<and>
         \<not> truthy (getProperty cursorKey (clearForManualRun svc st)) \<and>
         (truthy (getProperty cursorKey st) \<longrightarrow>
            getProperty cursorKey (clearForManualRun svc st) = None) \<and>
         getProperty startTimeKey (clearForManualRun svc st) = Some (toString currentTime) \<and>
         run svc cfg (clearForManualRun svc st) =
           runFrom svc cfg adGroups 0 ((clearForManualRun svc st)\<lparr>triggers := 0, world := w2\<rparr>) \<and>
         (adGroups \<noteq> [] \<longrightarrow>
            manuallyRun svc cfg st =
              (case processAdGroup svc cfg (adGroups ! 0)
                      ((clearForManualRun svc st)\<lparr>triggers := 0, world := w2\<rparr>) of
                 None \<Rightarrow> None
               | Some (Return st') \<Rightarrow> Some (Rescheduled, st')
               | Some (Raise st') \<Rightarrow> Some (SyntaxError, st')
               | Some (Next st') \<Rightarrow> runFrom svc cfg adGroups 1 st'))"
proof -
  define st1 where "st1 = clearForManualRun svc st"
  have w: "world st1 = w1"
    using assms(1) by (simp add: st1_def clearForManualRun_def storeStartTime_def Let_def store_defs)
  have falsy: "\<not> truthy (getProperty cursorKey st1)"
    using assms(1)
    by (simp add: st1_def clearForManualRun_def storeStartTime_def Let_def store_defs)
  have gone: "getProperty cursorKey st1 = None" if "truthy (getProperty cursorKey st)"
    using assms(1) that keys_differ
    by (simp add: st1_def clearForManualRun_def storeStartTime_def Let_def store_defs)
  have start: "getProperty startTimeKey st1 = Some (toString currentTime)"
    using assms(1) keys_differ
    by (simp add: st1_def clearForManualRun_def storeStartTime_def Let_def store_defs)
  from assms(2) w have "getAdGroups svc (world st1) = (adGroups, w2)"
    by simp
  from run_eq [OF this] falsy have r: "run svc cfg st1 =
      runFrom svc cfg adGroups 0 (st1\<lparr>triggers := 0, world := w2\<rparr>)"
    by (simp add: startIndex_def getProperty_def)
  have first: "run svc cfg st1 =
              (case processAdGroup svc cfg (adGroups ! 0) (st1\<lparr>triggers := 0, world := w2\<rparr>) of
                 None \<Rightarrow> None
               | Some (Return st') \<Rightarrow> Some (Rescheduled, st')
               | Some (Raise st') \<Rightarrow> Some (SyntaxError, st')
               | Some (Next st') \<Rightarrow> runFrom svc cfg adGroups 1 st')"
    if "adGroups \<noteq> []"
    using that r runFrom_round [of 0 adGroups svc cfg "st1\<lparr>triggers := 0, world := w2\<rparr>"]
    by (simp cong: option.case_cong round.case_cong)
  from falsy gone start r first show ?thesis
    by (simp add: manuallyRun_def st1_def)
qed

theorem manual_run_starts_at_zero_witness:
  "getProperty cursorKey (clearForManualRun (exampleServices 2 [] None)
      (exampleState [cursorKey \<mapsto> ''2''] 5)) = None \<and>
   getProperty startTimeKey (clearForManualRun (exampleServices 2 [] None)
      (exampleState [cursorKey \<mapsto> ''2''] 5)) = Some ''5'' \<and>
   manuallyRun (exampleServices 2 [] None) (exampleConfig AD_GROUP)
      (exampleState [cursorKey \<mapsto> ''2''] 5) =
     (case processAdGroup (exampleServices 2 [] None) (exampleConfig AD_GROUP) shoes
             ((clearForManualRun (exampleServices 2 [] None)
                 (exampleState [cursorKey \<mapsto> ''2''] 5))\<lparr>triggers := 0, world := 5\<rparr>) of
        None \<Rightarrow> None
      | Some (Return st') \<Rightarrow> Some (Rescheduled, st')
      | Some (Raise st') \<Rightarrow> Some (SyntaxError, st')
      | Some (Next st') \<Rightarrow>
          runFrom (exampleServices 2 [] None) (exampleConfig AD_GROUP) [shoes, hats] 1 st')"
proof -
  have d: "dateNow (exampleServices 2 [] None) (world (exampleState [cursorKey \<mapsto> ''2''] 5))
        = (5, 5)"
    by (simp add: exampleServices_def exampleState_def)
  have g: "getAdGroups (exampleServices 2 [] None) 5 = ([shoes, hats], 5)"
    by (simp add: exampleServices_def)
  have t: "truthy (getProperty cursorKey (exampleState [cursorKey \<mapsto> ''2''] 5))"
    by (simp add: getProperty_def exampleState_def)
  have five: "toString 5 = ''5''"
    by (simp add: toString_def digitsOf.simps digitChar_def)
  note m = manual_run_starts_at_zero [OF d g, of "exampleConfig AD_GROUP"]
  from m [THEN conjunct2, THEN conjunct2, THEN conjunct1] t
  have a: "getProperty cursorKey (clearForManualRun (exampleServices 2 [] None)
      (exampleState [cursorKey \<mapsto> ''2''] 5)) = None"
    by simp
  from m [THEN conjunct2, THEN conjunct2, THEN conjunct2, THEN conjunct1] five
  have b: "getProperty startTimeKey (clearForManualRun (exampleServices 2 [] None)
      (exampleState [cursorKey \<mapsto> ''2''] 5)) = Some ''5''"
    by simp
  from m [THEN conjunct2, THEN conjunct2, THEN conjunct2, THEN conjunct2, THEN conjunct2]
  have c: "manuallyRun (exampleServices 2 [] None) (exampleConfig AD_GROUP)
      (exampleState [cursorKey \<mapsto> ''2''] 5) =
     (case processAdGroup (exampleServices 2 [] None) (exampleConfig AD_GROUP) shoes
             ((clearForManualRun (exampleServices 2 [] None)
                 (exampleState [cursorKey \<mapsto> ''2''] 5))\<lparr>triggers := 0, world := 5\<rparr>) of
        None \<Rightarrow> None
      | Some (Return st') \<Rightarrow> Some (Rescheduled, st')
      | Some (Raise st') \<Rightarrow> Some (SyntaxError, st')
      | Some (Next st') \<Rightarrow>
          runFrom (exampleServices 2 [] None) (exampleConfig AD_GROUP) [shoes, hats] 1 st')"
    by simp
  from a b c show ?thesis
    by (intro conjI)
qed

end
